theory Spec2Isabelle
  imports Main "HOL-Library.Word"
begin

unbundle bit_operations_syntax

section \<open>The request logger of scripts/simple-server.py\<close>

text \<open>
  The program is one class, \<open>SimpleHandler\<close>, with three methods:
  \<^verbatim>\<open>
  def log_request_info(self):
      content_length = int(self.headers.get('Content-Length', 0))
      body = self.rfile.read(content_length).decode('utf-8') if content_length else ''
      logging.info(f"Path: {self.path}")
      logging.info(f"Method: {self.command}")
      logging.info(f"Headers: {self.headers}")
      logging.info(f"Body: {body}")

  def do_GET(self):
      self.log_request_info()
      self.send_response(200)
      self.end_headers()
      self.wfile.write(b"OK")
  \<close>
  and \<open>do_POST\<close> with the same four statements. The handler object is a record; what
  the methods do to the outside (reading the body stream, handing a record to the
  logging module, writing the response) is appended, in program order, to the field
  \<open>events\<close>. A Python exception is the left summand of the result.
\<close>

subsection \<open>Data\<close>

type_synonym byte = "8 word"

text \<open>
  A Python \<open>str\<close> is a sequence of Unicode code points. The request line and the
  header block are decoded by the HTTP library with ISO-8859-1, one byte per code point,
  so path, method, header names and header values are HOL strings (8-bit characters);
  the text decoded from the body can hold any code point.
\<close>

type_synonym pystr = "nat list"

definition latin1 :: "string \<Rightarrow> pystr" where
  "latin1 s = map of_char s"

datatype exn =
    ValueError
  | UnicodeDecodeError
  | OverflowError
  | MemoryError
  | HeaderWriteError
  | HeaderParseError

text \<open>
  The header object \<open>self.headers\<close> is a message of the email library. It holds the
  (name, value) pairs in the order of the wire, duplicates kept. Two things the library
  does when the object is turned into a string are taken as they come, as fields of the
  object: what the policy makes of one header (its text, or the exception it raises), and
  what the generator writes for the payload (the lines after a malformed header line end
  up there; its text, or the exception it raises; empty for a well-formed header block).
\<close>

record message =
  raw_items :: "(string \<times> string) list"
  policy_fold :: "string \<Rightarrow> string \<Rightarrow> exn + pystr"
  payload_text :: "exn + pystr"

datatype event =
    Rfile_read int
  | Logging_info pystr
  | Send_response nat
  | End_headers
  | Wfile_write "byte list"

text \<open>
  The handler object. \<open>rfile\<close> holds the bytes the connection still delivers before it
  ends. \<open>alloc_limit\<close> is not an attribute of the Python object: it is the largest byte
  string the interpreter can allocate while the request is handled.
\<close>

record handler =
  path :: string
  command :: string
  headers :: message
  rfile :: "byte list"
  alloc_limit :: nat
  events :: "event list"

subsection \<open>The library calls the handler makes\<close>

text \<open>\<open>str.lower\<close> on ISO-8859-1 text.\<close>

definition lower_char :: "char \<Rightarrow> char" where
  "lower_char c =
     (let n = (of_char c :: nat) in
      if (65 \<le> n \<and> n \<le> 90) \<or> (192 \<le> n \<and> n \<le> 222 \<and> n \<noteq> 215)
      then char_of (n + 32) else c)"

definition lower :: "string \<Rightarrow> string" where
  "lower s = map lower_char s"

text \<open>
  \<open>Message.get(name, failobj)\<close>: the value of the first header whose lower-cased name
  is the lower-cased \<open>name\<close>; \<open>None\<close> stands for \<open>failobj\<close>.
\<close>

fun find_header :: "string \<Rightarrow> (string \<times> string) list \<Rightarrow> string option" where
  "find_header name [] = None"
| "find_header name ((k, v) # kvs) =
     (if lower k = name then Some v else find_header name kvs)"

definition headers_get :: "message \<Rightarrow> string \<Rightarrow> string option" where
  "headers_get m name = find_header (lower name) (raw_items m)"

text \<open>
  \<open>int(s)\<close> for a string: white space around the number is skipped (for ISO-8859-1
  text: TAB, LF, VT, FF, CR, SPACE, NEL and NBSP), one sign may come first, then a run of
  decimal digits in which single underscores may separate digits. Anything else raises
  \<open>ValueError\<close>, and so does a run of more than 4300 digits (the interpreter's default
  limit; underscores, sign and white space do not count).
\<close>

definition is_space :: "char \<Rightarrow> bool" where
  "is_space c =
     (let n = (of_char c :: nat) in (9 \<le> n \<and> n \<le> 13) \<or> n = 32 \<or> n = 133 \<or> n = 160)"

definition is_digit :: "char \<Rightarrow> bool" where
  "is_digit c = (let n = (of_char c :: nat) in 48 \<le> n \<and> n \<le> 57)"

definition digit_val :: "char \<Rightarrow> int" where
  "digit_val c = int (of_char c) - 48"

text \<open>The scan of the digit run: \<open>prev\<close> is the character before \<open>c\<close>.\<close>

fun scan_run :: "char \<Rightarrow> string \<Rightarrow> bool" where
  "scan_run prev [] = (prev \<noteq> CHR ''_'')"
| "scan_run prev (c # cs) =
     (if c = CHR ''_'' then prev \<noteq> CHR ''_'' \<and> scan_run c cs
      else is_digit c \<and> scan_run c cs)"

fun digits_value :: "int \<Rightarrow> string \<Rightarrow> int" where
  "digits_value acc [] = acc"
| "digits_value acc (c # cs) =
     (if c = CHR ''_'' then digits_value acc cs
      else digits_value (10 * acc + digit_val c) cs)"

definition py_int :: "string \<Rightarrow> exn + int" where
  "py_int s =
     (let s1 = dropWhile is_space s;
          (sign, s2) = (case s1 of
                          c # r \<Rightarrow> if c = CHR ''+'' then (1, r)
                                   else if c = CHR ''-'' then (- 1, r)
                                   else (1, s1)
                        | [] \<Rightarrow> (1, s1));
          run = takeWhile (\<lambda>c. is_digit c \<or> c = CHR ''_'') s2;
          rest = dropWhile (\<lambda>c. is_digit c \<or> c = CHR ''_'') s2
      in if run = [] \<or> hd run = CHR ''_'' \<or> \<not> scan_run (CHR ''0'') run
            \<or> 4300 < length (filter is_digit run)
            \<or> dropWhile is_space rest \<noteq> []
         then Inl ValueError
         else Inr (sign * digits_value 0 run))"

text \<open>
  \<open>bytes.decode('utf-8')\<close>, strict: the well-formed byte sequences of the Unicode
  standard (no overlong form, no surrogate, nothing above U+10FFFF) give their code
  points; any other input raises \<open>UnicodeDecodeError\<close>.
\<close>

definition between :: "byte \<Rightarrow> byte \<Rightarrow> byte \<Rightarrow> bool" where
  "between lo hi b = (lo \<le> b \<and> b \<le> hi)"

definition low6 :: "byte \<Rightarrow> nat" where
  "low6 b = unat (b AND 0x3F)"

fun utf8_points :: "byte list \<Rightarrow> pystr option" where
  "utf8_points [] = Some []"
| "utf8_points (b0 # bs) =
     (if b0 \<le> 0x7F then map_option ((#) (unat b0)) (utf8_points bs)
      else if between 0xC2 0xDF b0 then
        (case bs of
           b1 # r \<Rightarrow>
             if between 0x80 0xBF b1
             then map_option ((#) (unat (b0 AND 0x1F) * 64 + low6 b1)) (utf8_points r)
             else None
         | _ \<Rightarrow> None)
      else if between 0xE0 0xEF b0 then
        (case bs of
           b1 # b2 # r \<Rightarrow>
             if between (if b0 = 0xE0 then 0xA0 else 0x80)
                        (if b0 = 0xED then 0x9F else 0xBF) b1
                \<and> between 0x80 0xBF b2
             then map_option
                    ((#) (unat (b0 AND 0x0F) * 4096 + low6 b1 * 64 + low6 b2))
                    (utf8_points r)
             else None
         | _ \<Rightarrow> None)
      else if between 0xF0 0xF4 b0 then
        (case bs of
           b1 # b2 # b3 # r \<Rightarrow>
             if between (if b0 = 0xF0 then 0x90 else 0x80)
                        (if b0 = 0xF4 then 0x8F else 0xBF) b1
                \<and> between 0x80 0xBF b2 \<and> between 0x80 0xBF b3
             then map_option
                    ((#) (unat (b0 AND 0x07) * 262144 + low6 b1 * 4096
                            + low6 b2 * 64 + low6 b3))
                    (utf8_points r)
             else None
         | _ \<Rightarrow> None)
      else None)"

definition utf8_decode :: "byte list \<Rightarrow> exn + pystr" where
  "utf8_decode bs =
     (case utf8_points bs of None \<Rightarrow> Inl UnicodeDecodeError | Some t \<Rightarrow> Inr t)"

text \<open>
  \<open>str(self.headers)\<close>: the generator first writes the payload aside, then every header
  as the policy renders it, in the stored order, then the empty line that ends a header
  block, then the payload. The first exception ends it.
\<close>

fun render_items ::
  "(string \<Rightarrow> string \<Rightarrow> exn + pystr) \<Rightarrow> (string \<times> string) list \<Rightarrow> exn + pystr" where
  "render_items f [] = Inr []"
| "render_items f ((h, v) # kvs) =
     (case f h v of
        Inl e \<Rightarrow> Inl e
      | Inr a \<Rightarrow> (case render_items f kvs of Inl e \<Rightarrow> Inl e | Inr b \<Rightarrow> Inr (a @ b)))"

definition str_message :: "message \<Rightarrow> exn + pystr" where
  "str_message m =
     (case payload_text m of
        Inl e \<Rightarrow> Inl e
      | Inr p \<Rightarrow>
          (case render_items (policy_fold m) (raw_items m) of
             Inl e \<Rightarrow> Inl e
           | Inr hs \<Rightarrow> Inr (hs @ latin1 ''\<newline>'' @ p)))"

text \<open>
  What the library's default policy makes of a header in two cases, which cover the
  sample requests below. A value of printable ASCII is rendered as name, colon, space,
  value, line feed. A value of graphic ASCII without a colon that is cut by single
  characters VT, FF, FS, GS or RS, none of them first or last, is refused with
  \<open>HeaderWriteError\<close>: the library breaks the line there and then finds a header line
  that does not start with a blank. What the library does with other values (it encodes
  characters outside ASCII, it rearranges blank lines) is not described by this
  function, and no theorem depends on it there.
\<close>

definition is_printable :: "char \<Rightarrow> bool" where
  "is_printable c = (let n = (of_char c :: nat) in 32 \<le> n \<and> n \<le> 126)"

definition is_graphic :: "char \<Rightarrow> bool" where
  "is_graphic c = (let n = (of_char c :: nat) in 33 \<le> n \<and> n \<le> 126 \<and> c \<noteq> CHR '':'')"

definition is_break :: "char \<Rightarrow> bool" where
  "is_break c = (let n = (of_char c :: nat) in n = 11 \<or> n = 12 \<or> n = 28 \<or> n = 29 \<or> n = 30)"

fun cut_lines :: "string \<Rightarrow> bool" where
  "cut_lines [] = False"
| "cut_lines [c] = is_graphic c"
| "cut_lines (c # d # cs) =
     (if is_break d then is_graphic c \<and> cs \<noteq> [] \<and> \<not> is_break (hd cs) \<and> cut_lines cs
      else is_graphic c \<and> cut_lines (d # cs))"

definition fold_plain :: "string \<Rightarrow> string \<Rightarrow> exn + pystr" where
  "fold_plain h v =
     (if \<not> list_all is_printable v \<and> cut_lines v then Inl HeaderWriteError
      else Inr (latin1 (h @ '': '' @ v @ ''\<newline>'')))"

definition emit :: "event \<Rightarrow> handler \<Rightarrow> handler" where
  "emit e self = self\<lparr>events := events self @ [e]\<rparr>"

text \<open>
  \<open>self.rfile.read(n)\<close> on the buffered reader of the connection, for a 64-bit
  interpreter. The count must fit the index type, else \<open>OverflowError\<close>; a count below
  \<open>-1\<close> raises \<open>ValueError\<close>; \<open>-1\<close> takes all bytes of the stream; for any other count
  the reader first allocates a byte string of that size, which raises \<open>OverflowError\<close>
  above \<open>2^63 - 34\<close> and \<open>MemoryError\<close> above what can be allocated, and then takes that
  many bytes (fewer when the stream ends first). The call is recorded whatever it does;
  a call that raises leaves the stream as it was. The stream itself is taken to fit in
  memory, so a read to its end returns.
\<close>

definition taken :: "int \<Rightarrow> byte list \<Rightarrow> byte list" where
  "taken n bs = (if n = - 1 then bs else take (nat n) bs)"

definition left_over :: "int \<Rightarrow> byte list \<Rightarrow> byte list" where
  "left_over n bs = (if n = - 1 then [] else drop (nat n) bs)"

definition rfile_read :: "int \<Rightarrow> handler \<Rightarrow> (exn + byte list) \<times> handler" where
  "rfile_read n self =
     (let s = emit (Rfile_read n) self in
      if n < - (2 ^ 63) \<or> 2 ^ 63 \<le> n then (Inl OverflowError, s)
      else if n < - 1 then (Inl ValueError, s)
      else if n = - 1 then (Inr (taken n (rfile s)), s\<lparr>rfile := left_over n (rfile s)\<rparr>)
      else if 2 ^ 63 - 34 < n then (Inl OverflowError, s)
      else if alloc_limit s < nat n then (Inl MemoryError, s)
      else (Inr (taken n (rfile s)), s\<lparr>rfile := left_over n (rfile s)\<rparr>))"

text \<open>The counts with which a read returns.\<close>

definition fits :: "handler \<Rightarrow> int \<Rightarrow> bool" where
  "fits self n = (- 1 \<le> n \<and> n \<le> 2 ^ 63 - 34 \<and> nat n \<le> alloc_limit self)"

definition logging_info :: "pystr \<Rightarrow> handler \<Rightarrow> handler" where
  "logging_info msg self = emit (Logging_info msg) self"

text \<open>
  The three calls that answer. Each event stands for the call. Of \<open>send_response\<close> the
  status code is kept; the headers the library adds on its own and the access line it
  prints to the error stream are not events of the model, and neither is what the
  library puts on the wire for the call (for a request line without a protocol version
  it writes no status line). A failure of the connection while the response is written
  is not modelled.
\<close>

definition send_response :: "nat \<Rightarrow> handler \<Rightarrow> handler" where
  "send_response code self = emit (Send_response code) self"

definition end_headers :: "handler \<Rightarrow> handler" where
  "end_headers self = emit End_headers self"

definition wfile_write :: "byte list \<Rightarrow> handler \<Rightarrow> handler" where
  "wfile_write bs self = emit (Wfile_write bs) self"

subsection \<open>The handler\<close>

text \<open>Line 6: \<open>int(self.headers.get('Content-Length', 0))\<close>; \<open>int(0)\<close> is 0.\<close>

definition content_length :: "handler \<Rightarrow> exn + int" where
  "content_length self =
     (case headers_get (headers self) ''Content-Length'' of
        None \<Rightarrow> Inr 0
      | Some v \<Rightarrow> py_int v)"

text \<open>
  Line 7: \<open>self.rfile.read(n).decode('utf-8') if n else ''\<close>; a non-zero count is
  true, also a negative one.
\<close>

definition read_body :: "int \<Rightarrow> handler \<Rightarrow> (exn + pystr) \<times> handler" where
  "read_body n self =
     (if n \<noteq> 0 then
        (case rfile_read n self of
           (Inl e, s) \<Rightarrow> (Inl e, s)
         | (Inr bs, s) \<Rightarrow>
             (case utf8_decode bs of
                Inl e \<Rightarrow> (Inl e, s)
              | Inr t \<Rightarrow> (Inr t, s)))
      else (Inr [], self))"

text \<open>
  Lines 8 to 11. The text of a record is built before \<open>logging.info\<close> is called, so
  when \<open>str(self.headers)\<close> raises on line 10, the first two records are out and the
  last two are not.
\<close>

definition log_request_info :: "handler \<Rightarrow> (exn + unit) \<times> handler" where
  "log_request_info self =
     (case content_length self of
        Inl e \<Rightarrow> (Inl e, self)
      | Inr n \<Rightarrow>
          (case read_body n self of
             (Inl e, s) \<Rightarrow> (Inl e, s)
           | (Inr body, s0) \<Rightarrow>
               (let s1 = logging_info (latin1 ''Path: '' @ latin1 (path s0)) s0;
                    s2 = logging_info (latin1 ''Method: '' @ latin1 (command s1)) s1
                in case str_message (headers s2) of
                     Inl e \<Rightarrow> (Inl e, s2)
                   | Inr h \<Rightarrow>
                       (let s3 = logging_info (latin1 ''Headers: '' @ h) s2;
                            s4 = logging_info (latin1 ''Body: '' @ body) s3
                        in (Inr (), s4)))))"

definition do_GET :: "handler \<Rightarrow> (exn + unit) \<times> handler" where
  "do_GET self =
     (case log_request_info self of
        (Inl e, s) \<Rightarrow> (Inl e, s)
      | (Inr u, s0) \<Rightarrow>
          (let s1 = send_response 200 s0;
               s2 = end_headers s1;
               s3 = wfile_write [0x4F, 0x4B] s2
           in (Inr (), s3)))"

definition do_POST :: "handler \<Rightarrow> (exn + unit) \<times> handler" where
  "do_POST self =
     (case log_request_info self of
        (Inl e, s) \<Rightarrow> (Inl e, s)
      | (Inr u, s0) \<Rightarrow>
          (let s1 = send_response 200 s0;
               s2 = end_headers s1;
               s3 = wfile_write [0x4F, 0x4B] s2
           in (Inr (), s3)))"

subsection \<open>What an event sequence shows\<close>

fun log_records :: "event list \<Rightarrow> pystr list" where
  "log_records [] = []"
| "log_records (Logging_info m # es) = m # log_records es"
| "log_records (e # es) = log_records es"

fun reads :: "event list \<Rightarrow> int list" where
  "reads [] = []"
| "reads (Rfile_read n # es) = n # reads es"
| "reads (e # es) = reads es"

fun response_status :: "event list \<Rightarrow> nat list" where
  "response_status [] = []"
| "response_status (Send_response c # es) = c # response_status es"
| "response_status (e # es) = response_status es"

fun response_body :: "event list \<Rightarrow> byte list" where
  "response_body [] = []"
| "response_body (Wfile_write bs # es) = bs @ response_body es"
| "response_body (e # es) = response_body es"

text \<open>The events a call added to the handler it was given.\<close>

definition produced :: "handler \<Rightarrow> handler \<Rightarrow> event list" where
  "produced self s = drop (length (events self)) (events s)"

text \<open>The text of \<open>str(self.headers)\<close> when it returns one (empty when it raises).\<close>

definition rendered :: "message \<Rightarrow> pystr" where
  "rendered m = (case str_message m of Inl e \<Rightarrow> [] | Inr h \<Rightarrow> h)"

text \<open>The four messages of lines 8 to 11, for a given body text.\<close>

definition request_records :: "handler \<Rightarrow> pystr \<Rightarrow> pystr list" where
  "request_records self body =
     [latin1 ''Path: '' @ latin1 (path self),
      latin1 ''Method: '' @ latin1 (command self),
      latin1 ''Headers: '' @ rendered (headers self),
      latin1 ''Body: '' @ body]"

text \<open>The three statements that answer, lines 15 to 17 and 21 to 23.\<close>

definition ok_response :: "event list" where
  "ok_response = [Send_response 200, End_headers, Wfile_write [0x4F, 0x4B]]"




text \<open>
  What lines 8 to 11 do for a given body text: the result, and the events. When
  \<open>str(self.headers)\<close> raises, only the first two records are logged.
\<close>

definition fields_result :: "handler \<Rightarrow> exn + unit" where
  "fields_result self = (case str_message (headers self) of Inl e \<Rightarrow> Inl e | Inr h \<Rightarrow> Inr ())"

definition fields_logged :: "handler \<Rightarrow> pystr \<Rightarrow> event list" where
  "fields_logged self body =
     (case str_message (headers self) of
        Inl e \<Rightarrow> map Logging_info (take 2 (request_records self body))
      | Inr h \<Rightarrow> map Logging_info (request_records self body))"

text \<open>The exception of a read with a count that does not fit.\<close>

definition read_error :: "int \<Rightarrow> handler \<Rightarrow> exn" where
  "read_error n self =
     (if n < - (2 ^ 63) \<or> 2 ^ 63 \<le> n then OverflowError
      else if n < - 1 then ValueError
      else if 2 ^ 63 - 34 < n then OverflowError
      else MemoryError)"

subsection \<open>Sample requests\<close>

text \<open>\<open>GET /health\<close> with \<open>Host: localhost\<close> and no body.\<close>

definition get_health :: handler where
  "get_health =
     \<lparr>path = ''/health'', command = ''GET'',
      headers = \<lparr>raw_items = [(''Host'', ''localhost'')], policy_fold = fold_plain,
                 payload_text = Inr []\<rparr>,
      rfile = [], alloc_limit = 65536, events = []\<rparr>"

text \<open>\<open>POST /echo\<close> with a given \<open>Content-Length\<close> value and body stream.\<close>

definition post_echo :: "string \<Rightarrow> byte list \<Rightarrow> handler" where
  "post_echo cl bs =
     \<lparr>path = ''/echo'', command = ''POST'',
      headers = \<lparr>raw_items = [(''Host'', ''localhost''), (''Content-Length'', cl)],
                 policy_fold = fold_plain, payload_text = Inr []\<rparr>,
      rfile = bs, alloc_limit = 65536, events = []\<rparr>"

text \<open>A request with two \<open>X-Trace-Id\<close> headers around a third header.\<close>

definition get_traced :: handler where
  "get_traced =
     \<lparr>path = ''/'', command = ''GET'',
      headers = \<lparr>raw_items = [(''X-Trace-Id'', ''a''), (''Host'', ''h''), (''X-Trace-Id'', ''b'')],
                 policy_fold = fold_plain, payload_text = Inr []\<rparr>,
      rfile = [], alloc_limit = 65536, events = []\<rparr>"

text \<open>
  The same two headers around a \<open>Content-Length\<close> header with a given value, sent as
  a POST with a given body stream.
\<close>

definition post_traced :: "string \<Rightarrow> byte list \<Rightarrow> handler" where
  "post_traced cl bs =
     \<lparr>path = ''/'', command = ''POST'',
      headers = \<lparr>raw_items = [(''X-Trace-Id'', ''a''), (''Content-Length'', cl),
                              (''X-Trace-Id'', ''b'')],
                 policy_fold = fold_plain, payload_text = Inr []\<rparr>,
      rfile = bs, alloc_limit = 65536, events = []\<rparr>"

text \<open>
  \<open>POST /echo\<close> with a header \<open>X-A\<close> whose value is \<open>a\<close>, the control character FS
  (\<open>0x1C\<close>) and \<open>b\<close>, followed by a given list of further headers, and a body stream.
\<close>

definition post_odd :: "(string \<times> string) list \<Rightarrow> byte list \<Rightarrow> handler" where
  "post_odd hs bs =
     \<lparr>path = ''/echo'', command = ''POST'',
      headers = \<lparr>raw_items = (''X-A'', [CHR ''a'', CHR 0x1C, CHR ''b'']) # hs,
                 policy_fold = fold_plain, payload_text = Inr []\<rparr>,
      rfile = bs, alloc_limit = 65536, events = []\<rparr>"

subsection \<open>The handler, case by case\<close>

lemma produced_append: "events s = events self @ xs \<Longrightarrow> produced self s = xs"
  by (simp add: produced_def)

lemma utf8_decode_Nil: "utf8_decode [] = Inr []"
  by (simp add: utf8_decode_def)

lemma exn_of_utf8_decode: "utf8_decode bs = Inl e \<Longrightarrow> e = UnicodeDecodeError"
  by (auto simp: utf8_decode_def split: option.splits)

lemma exn_of_py_int: "py_int v = Inl e \<Longrightarrow> e = ValueError"
  by (auto simp: py_int_def Let_def split: if_splits prod.splits)

lemma fits_zero: "fits self 0"
  by (simp add: fits_def)

lemma read_body_unfold:
  "read_body n self =
     (if n = 0 then (Inr [], self)
      else if \<not> fits self n then
        (Inl (read_error n self), self\<lparr>events := events self @ [Rfile_read n]\<rparr>)
      else (utf8_decode (taken n (rfile self)),
            self\<lparr>rfile := left_over n (rfile self), events := events self @ [Rfile_read n]\<rparr>))"
  by (auto simp: read_body_def rfile_read_def emit_def fits_def read_error_def Let_def
        split: sum.splits)

lemma log_request_info_unfold:
  "log_request_info self =
     (case content_length self of
        Inl e \<Rightarrow> (Inl e, self)
      | Inr n \<Rightarrow>
          if n = 0 then
            (fields_result self, self\<lparr>events := events self @ fields_logged self []\<rparr>)
          else if \<not> fits self n then
            (Inl (read_error n self), self\<lparr>events := events self @ [Rfile_read n]\<rparr>)
          else
            (case utf8_decode (taken n (rfile self)) of
               Inl e \<Rightarrow>
                 (Inl e, self\<lparr>rfile := left_over n (rfile self),
                              events := events self @ [Rfile_read n]\<rparr>)
             | Inr t \<Rightarrow>
                 (fields_result self,
                  self\<lparr>rfile := left_over n (rfile self),
                       events := events self @ Rfile_read n # fields_logged self t\<rparr>)))"
  by (simp add: log_request_info_def read_body_unfold logging_info_def emit_def
        request_records_def rendered_def fields_result_def fields_logged_def
        split: sum.splits)

lemma do_GET_unfold:
  "do_GET self =
     (case log_request_info self of
        (Inl e, s) \<Rightarrow> (Inl e, s)
      | (Inr u, s) \<Rightarrow> (Inr (), s\<lparr>events := events s @ ok_response\<rparr>))"
  by (simp add: do_GET_def send_response_def end_headers_def wfile_write_def emit_def
        ok_response_def split: prod.splits sum.splits)

lemma do_POST_unfold:
  "do_POST self =
     (case log_request_info self of
        (Inl e, s) \<Rightarrow> (Inl e, s)
      | (Inr u, s) \<Rightarrow> (Inr (), s\<lparr>events := events s @ ok_response\<rparr>))"
  by (simp add: do_POST_def send_response_def end_headers_def wfile_write_def emit_def
        ok_response_def split: prod.splits sum.splits)

lemma log_request_info_fields:
  assumes "content_length self = Inr n" and "fits self n"
    and "utf8_decode (taken n (rfile self)) = Inr t"
  shows "log_request_info self =
     (fields_result self,
      self\<lparr>rfile := (if n = 0 then rfile self else left_over n (rfile self)),
           events := events self @ (if n = 0 then [] else [Rfile_read n])
             @ fields_logged self t\<rparr>)"
proof (cases "n = 0")
  case True
  with assms(3) have "t = []"
    by (simp add: taken_def utf8_decode_Nil)
  with True assms(1) show ?thesis
    by (simp add: log_request_info_unfold)
next
  case False
  with assms show ?thesis
    by (simp add: log_request_info_unfold)
qed

lemma log_request_info_returns:
  assumes "content_length self = Inr n" and "fits self n"
    and "utf8_decode (taken n (rfile self)) = Inr t"
    and "str_message (headers self) = Inr h"
  shows "log_request_info self =
     (Inr (), self\<lparr>rfile := (if n = 0 then rfile self else left_over n (rfile self)),
                   events := events self @ (if n = 0 then [] else [Rfile_read n])
                     @ map Logging_info (request_records self t)\<rparr>)"
  by (simp add: log_request_info_fields [OF assms(1-3)] fields_result_def fields_logged_def
        assms(4))

lemma log_request_info_unrendered:
  assumes "content_length self = Inr n" and "fits self n"
    and "utf8_decode (taken n (rfile self)) = Inr t"
    and "str_message (headers self) = Inl e"
  shows "log_request_info self =
     (Inl e, self\<lparr>rfile := (if n = 0 then rfile self else left_over n (rfile self)),
                  events := events self @ (if n = 0 then [] else [Rfile_read n])
                    @ map Logging_info (take 2 (request_records self t))\<rparr>)"
  by (simp add: log_request_info_fields [OF assms(1-3)] fields_result_def fields_logged_def
        assms(4))

lemma do_GET_returns:
  assumes "content_length self = Inr n" and "fits self n"
    and "utf8_decode (taken n (rfile self)) = Inr t"
    and "str_message (headers self) = Inr h"
  shows "do_GET self =
     (Inr (), self\<lparr>rfile := (if n = 0 then rfile self else left_over n (rfile self)),
                   events := events self @ (if n = 0 then [] else [Rfile_read n])
                     @ map Logging_info (request_records self t) @ ok_response\<rparr>)"
  by (simp add: do_GET_unfold log_request_info_returns [OF assms])

lemma do_POST_returns:
  assumes "content_length self = Inr n" and "fits self n"
    and "utf8_decode (taken n (rfile self)) = Inr t"
    and "str_message (headers self) = Inr h"
  shows "do_POST self =
     (Inr (), self\<lparr>rfile := (if n = 0 then rfile self else left_over n (rfile self)),
                   events := events self @ (if n = 0 then [] else [Rfile_read n])
                     @ map Logging_info (request_records self t) @ ok_response\<rparr>)"
  by (simp add: do_POST_unfold log_request_info_returns [OF assms])

lemma request_records_rendered:
  "str_message (headers self) = Inr h \<Longrightarrow>
   request_records self t =
     [latin1 ''Path: '' @ latin1 (path self),
      latin1 ''Method: '' @ latin1 (command self),
      latin1 ''Headers: '' @ h,
      latin1 ''Body: '' @ t]"
  by (simp add: request_records_def rendered_def)

lemma content_length_header:
  "headers_get (headers self) ''Content-Length'' = Some v \<Longrightarrow> content_length self = py_int v"
  by (simp add: content_length_def)

lemma render_items_append:
  "render_items f (xs @ ys) =
     (case render_items f xs of
        Inl e \<Rightarrow> Inl e
      | Inr a \<Rightarrow> (case render_items f ys of Inl e \<Rightarrow> Inl e | Inr b \<Rightarrow> Inr (a @ b)))"
  by (induction xs) (auto split: sum.splits)







text \<open>The method of the request enters the second record only.\<close>

lemma content_length_command: "content_length (self\<lparr>command := c\<rparr>) = content_length self"
  by (simp add: content_length_def)

lemma fits_command: "fits (self\<lparr>command := c\<rparr>) n = fits self n"
  by (simp add: fits_def)

lemma read_error_command: "read_error n (self\<lparr>command := c\<rparr>) = read_error n self"
  by (simp add: read_error_def)

lemma fields_result_command: "fields_result (self\<lparr>command := c\<rparr>) = fields_result self"
  by (simp add: fields_result_def)

lemma log_records_fields_logged_command:
  "log_records (fields_logged (self\<lparr>command := c\<rparr>) t) =
     (log_records (fields_logged self t))[1 := latin1 ''Method: '' @ latin1 c]"
  by (simp add: fields_logged_def request_records_def rendered_def split: sum.splits)

lemma fields_logged_quiet:
  "reads (fields_logged self t) = [] \<and> response_status (fields_logged self t) = []
   \<and> response_body (fields_logged self t) = []"
  by (simp add: fields_logged_def request_records_def split: sum.splits)

text \<open>The projections of an event sequence go through append.\<close>

lemma reads_append: "reads (xs @ ys) = reads xs @ reads ys"
  by (induction xs rule: reads.induct) simp_all

lemma log_records_append: "log_records (xs @ ys) = log_records xs @ log_records ys"
  by (induction xs rule: log_records.induct) simp_all

lemma response_status_append:
  "response_status (xs @ ys) = response_status xs @ response_status ys"
  by (induction xs rule: response_status.induct) simp_all

lemma response_body_append: "response_body (xs @ ys) = response_body xs @ response_body ys"
  by (induction xs rule: response_body.induct) simp_all

lemma length_log_records_fields_logged: "2 \<le> length (log_records (fields_logged self t))"
  by (simp add: fields_logged_def request_records_def split: sum.splits)

text \<open>The sample requests.\<close>

lemma content_length_get_health: "content_length get_health = Inr 0"
  by (simp add: content_length_def headers_get_def get_health_def lower_def lower_char_def)

lemma content_length_get_traced: "content_length get_traced = Inr 0"
  by (simp add: content_length_def headers_get_def get_traced_def lower_def lower_char_def)

lemma headers_get_post_echo:
  "headers_get (headers (post_echo cl bs)) ''Content-Length'' = Some cl"
  by (simp add: headers_get_def post_echo_def lower_def lower_char_def)

lemma content_length_post_echo: "content_length (post_echo cl bs) = py_int cl"
  by (simp add: content_length_def headers_get_post_echo)

lemma headers_get_post_traced:
  "headers_get (headers (post_traced cl bs)) ''Content-Length'' = Some cl"
  by (simp add: headers_get_def post_traced_def lower_def lower_char_def)

lemma headers_get_post_odd:
  "headers_get (headers (post_odd [] bs)) ''Content-Length'' = None"
  by (simp add: headers_get_def post_odd_def lower_def lower_char_def)

lemma fits_post_echo: "fits (post_echo cl bs) 1" "fits (post_echo cl bs) 2" "fits (post_echo cl bs) (- 1)"
  by (simp_all add: fits_def post_echo_def)

lemma py_int_samples:
  "py_int ''0'' = Inr 0" "py_int ''1'' = Inr 1" "py_int ''2'' = Inr 2"
  "py_int ''-1'' = Inr (- 1)" "py_int ''-5'' = Inr (- 5)" "py_int ''abc'' = Inl ValueError"
  "py_int ''9223372036854775808'' = Inr 9223372036854775808"
  by (simp_all add: py_int_def is_space_def is_digit_def digit_val_def)

lemma utf8_decode_samples:
  "utf8_decode [0x68, 0x69] = Inr [104, 105]"
  "utf8_decode [0xFF] = Inl UnicodeDecodeError"
  by (simp_all add: utf8_decode_def between_def)

lemma str_message_get_health:
  "str_message (headers get_health) = Inr (latin1 ''Host: localhost\<newline>\<newline>'')"
  by (simp add: get_health_def str_message_def fold_plain_def is_printable_def latin1_def)

lemma str_message_post_echo_2:
  "str_message (headers (post_echo ''2'' bs)) =
     Inr (latin1 ''Host: localhost\<newline>Content-Length: 2\<newline>\<newline>'')"
  by (simp add: post_echo_def str_message_def fold_plain_def is_printable_def latin1_def)

lemma str_message_post_echo_0:
  "str_message (headers (post_echo ''0'' bs)) =
     Inr (latin1 ''Host: localhost\<newline>Content-Length: 0\<newline>\<newline>'')"
  by (simp add: post_echo_def str_message_def fold_plain_def is_printable_def latin1_def)

lemma str_message_get_traced:
  "str_message (headers get_traced) =
     Inr (latin1 ''X-Trace-Id: a\<newline>Host: h\<newline>X-Trace-Id: b\<newline>\<newline>'')"
  by (simp add: get_traced_def str_message_def fold_plain_def is_printable_def latin1_def)

lemma str_message_post_odd:
  "str_message (headers (post_odd hs bs)) = Inl HeaderWriteError"
  by (simp add: post_odd_def str_message_def fold_plain_def is_printable_def is_graphic_def
        is_break_def)

section \<open>The claims\<close>

subsection \<open>C1: the response\<close>

text \<open>
  C1, as written: every GET or POST request, whatever its path, headers and body, gets
  status 200 and the body \<open>OK\<close>. This fails for a POST that announces one body byte
  and sends \<open>0xFF\<close>: decoding raises, and nothing of the response is written.
\<close>

theorem response_ok_counterexample:
  "fst (do_POST (post_echo ''1'' [0xFF])) = Inl UnicodeDecodeError
   \<and> response_status (produced (post_echo ''1'' [0xFF]) (snd (do_POST (post_echo ''1'' [0xFF])))) = []
   \<and> response_body (produced (post_echo ''1'' [0xFF]) (snd (do_POST (post_echo ''1'' [0xFF])))) = []"
proof -
  have c: "content_length (post_echo ''1'' [0xFF]) = Inr 1"
    by (simp add: content_length_post_echo py_int_samples)
  have d: "utf8_decode (taken 1 (rfile (post_echo ''1'' [0xFF]))) = Inl UnicodeDecodeError"
    by (simp add: post_echo_def taken_def utf8_decode_samples)
  show ?thesis
    by (simp add: do_POST_unfold log_request_info_unfold c d fits_post_echo produced_def)
qed

text \<open>
  C1, amended: for every GET or POST request whose \<open>Content-Length\<close> header is absent
  or parses as an integer that the reader takes as a count (not below \<open>-1\<close>, at most
  \<open>2^63 - 34\<close>, within what the interpreter can allocate), whose bytes read under that
  count are valid UTF-8, and whose header object \<open>str\<close> turns into a string without
  raising, the handler returns, calls \<open>send_response(200)\<close> and writes exactly the two
  bytes \<open>OK\<close> as the body.
\<close>

theorem response_ok:
  assumes "content_length self = Inr n" and "fits self n"
    and "utf8_decode (taken n (rfile self)) = Inr t"
    and "str_message (headers self) = Inr h"
  shows "fst (do_GET self) = Inr ()
       \<and> response_status (produced self (snd (do_GET self))) = [200]
       \<and> response_body (produced self (snd (do_GET self))) = [0x4F, 0x4B]
       \<and> fst (do_POST self) = Inr ()
       \<and> response_status (produced self (snd (do_POST self))) = [200]
       \<and> response_body (produced self (snd (do_POST self))) = [0x4F, 0x4B]"
  by (simp add: do_GET_returns [OF assms] do_POST_returns [OF assms] produced_def
        request_records_def ok_response_def)

theorem response_ok_witness:
  "content_length (post_echo ''2'' [0x68, 0x69, 0x21]) = Inr 2
   \<and> fits (post_echo ''2'' [0x68, 0x69, 0x21]) 2
   \<and> utf8_decode (taken 2 (rfile (post_echo ''2'' [0x68, 0x69, 0x21]))) = Inr [104, 105]
   \<and> str_message (headers (post_echo ''2'' [0x68, 0x69, 0x21])) =
       Inr (latin1 ''Host: localhost\<newline>Content-Length: 2\<newline>\<newline>'')
   \<and> fst (do_POST (post_echo ''2'' [0x68, 0x69, 0x21])) = Inr ()
   \<and> response_status (produced (post_echo ''2'' [0x68, 0x69, 0x21])
         (snd (do_POST (post_echo ''2'' [0x68, 0x69, 0x21])))) = [200]
   \<and> response_body (produced (post_echo ''2'' [0x68, 0x69, 0x21])
         (snd (do_POST (post_echo ''2'' [0x68, 0x69, 0x21])))) = [0x4F, 0x4B]"
proof -
  have c: "content_length (post_echo ''2'' [0x68, 0x69, 0x21]) = Inr 2"
    by (simp add: content_length_post_echo py_int_samples)
  have d: "utf8_decode (taken 2 (rfile (post_echo ''2'' [0x68, 0x69, 0x21]))) = Inr [104, 105]"
    by (simp add: post_echo_def taken_def utf8_decode_samples)
  note f = fits_post_echo(2) [of "''2''" "[0x68, 0x69, 0x21]"]
  note r = str_message_post_echo_2 [of "[0x68, 0x69, 0x21]"]
  show ?thesis
    using response_ok [OF c f d r] c d f r by simp
qed

subsection \<open>C2: a missing or malformed \<open>Content-Length\<close>\<close>

text \<open>
  C2, as written: when the \<open>Content-Length\<close> header is absent or its value does not
  parse as an integer, the handler takes the length as 0, reads no body, logs an empty
  body and does not fail. The second half fails: with \<open>Content-Length: abc\<close> the call
  of \<open>int\<close> raises \<open>ValueError\<close> and nothing is logged.
\<close>

theorem unparsable_length_counterexample:
  "fst (log_request_info (post_echo ''abc'' [])) = Inl ValueError
   \<and> log_records (produced (post_echo ''abc'' []) (snd (log_request_info (post_echo ''abc'' [])))) = []"
proof -
  have c: "content_length (post_echo ''abc'' []) = Inl ValueError"
    by (simp add: content_length_post_echo py_int_samples)
  show ?thesis
    by (simp add: log_request_info_unfold c produced_def)
qed

text \<open>
  C2, amended: when the \<open>Content-Length\<close> header is absent, the handler takes the
  length as 0 and reads no body; if \<open>str\<close> of the header object returns a string, the
  handler logs an empty body string and does not fail, and if it raises, the handler
  fails with that exception on line 10, after the \<open>Path\<close> and \<open>Method\<close> records. When
  the value of the header does not parse as an integer, the handler raises \<open>ValueError\<close>
  before anything is read, logged or answered.
\<close>

theorem absent_or_unparsable_length:
  "(headers_get (headers self) ''Content-Length'' = None \<longrightarrow>
      content_length self = Inr 0
      \<and> reads (produced self (snd (log_request_info self))) = []
      \<and> rfile (snd (log_request_info self)) = rfile self
      \<and> (\<forall>h. str_message (headers self) = Inr h \<longrightarrow>
            log_request_info self =
              (Inr (), self\<lparr>events := events self
                              @ map Logging_info (request_records self [])\<rparr>)
            \<and> last (log_records (produced self (snd (log_request_info self))))
                = latin1 ''Body: '')
      \<and> (\<forall>e. str_message (headers self) = Inl e \<longrightarrow>
            fst (log_request_info self) = Inl e
            \<and> log_records (produced self (snd (log_request_info self))) =
                [latin1 ''Path: '' @ latin1 (path self),
                 latin1 ''Method: '' @ latin1 (command self)]))
   \<and> (\<forall>v e. headers_get (headers self) ''Content-Length'' = Some v \<and> py_int v = Inl e \<longrightarrow>
          log_request_info self = (Inl ValueError, self)
          \<and> do_GET self = (Inl ValueError, self)
          \<and> do_POST self = (Inl ValueError, self))"
proof (intro conjI impI allI)
  assume a: "headers_get (headers self) ''Content-Length'' = None"
  then show c: "content_length self = Inr 0"
    by (simp add: content_length_def)
  have d: "utf8_decode (taken 0 (rfile self)) = Inr []"
    by (simp add: taken_def utf8_decode_Nil)
  note l = log_request_info_fields [OF c fits_zero d]
  show "reads (produced self (snd (log_request_info self))) = []"
    by (simp add: l produced_def fields_logged_quiet)
  show "rfile (snd (log_request_info self)) = rfile self"
    by (simp add: l)
  {
    fix h
    assume r: "str_message (headers self) = Inr h"
    note k = log_request_info_returns [OF c fits_zero d r]
    show "log_request_info self =
        (Inr (), self\<lparr>events := events self @ map Logging_info (request_records self [])\<rparr>)"
      by (simp add: k)
    show "last (log_records (produced self (snd (log_request_info self)))) = latin1 ''Body: ''"
      by (simp add: k produced_def request_records_def)
  }
  {
    fix e
    assume r: "str_message (headers self) = Inl e"
    note k = log_request_info_unrendered [OF c fits_zero d r]
    show "fst (log_request_info self) = Inl e"
      by (simp add: k)
    show "log_records (produced self (snd (log_request_info self))) =
        [latin1 ''Path: '' @ latin1 (path self), latin1 ''Method: '' @ latin1 (command self)]"
      by (simp add: k produced_def request_records_def)
  }
next
  fix v e
  assume a: "headers_get (headers self) ''Content-Length'' = Some v \<and> py_int v = Inl e"
  then have "e = ValueError"
    by (blast dest: exn_of_py_int)
  with a have c: "content_length self = Inl ValueError"
    by (simp add: content_length_def)
  then show l: "log_request_info self = (Inl ValueError, self)"
    by (simp add: log_request_info_unfold)
  then show "do_GET self = (Inl ValueError, self)"
    by (simp add: do_GET_unfold)
  from l show "do_POST self = (Inl ValueError, self)"
    by (simp add: do_POST_unfold)
qed

theorem absent_or_unparsable_length_witness:
  "headers_get (headers get_health) ''Content-Length'' = None
   \<and> str_message (headers get_health) = Inr (latin1 ''Host: localhost\<newline>\<newline>'')
   \<and> log_request_info get_health =
        (Inr (), get_health\<lparr>events := events get_health
                                @ map Logging_info (request_records get_health [])\<rparr>)
   \<and> headers_get (headers (post_odd [] [])) ''Content-Length'' = None
   \<and> str_message (headers (post_odd [] [])) = Inl HeaderWriteError
   \<and> fst (log_request_info (post_odd [] [])) = Inl HeaderWriteError
   \<and> headers_get (headers (post_echo ''abc'' [])) ''Content-Length'' = Some ''abc''
   \<and> py_int ''abc'' = Inl ValueError
   \<and> do_POST (post_echo ''abc'' []) = (Inl ValueError, post_echo ''abc'' [])"
proof -
  have a: "headers_get (headers get_health) ''Content-Length'' = None"
    by (simp add: headers_get_def get_health_def lower_def lower_char_def)
  note r = str_message_get_health
  note a' = headers_get_post_odd [of "[]"]
  note r' = str_message_post_odd [of "[]" "[]"]
  have b: "headers_get (headers (post_echo ''abc'' [])) ''Content-Length'' = Some ''abc''"
    by (rule headers_get_post_echo)
  have c: "py_int ''abc'' = Inl ValueError"
    by (simp add: py_int_samples)
  from absent_or_unparsable_length [of get_health] a r
  have 1: "log_request_info get_health =
        (Inr (), get_health\<lparr>events := events get_health
                                @ map Logging_info (request_records get_health [])\<rparr>)"
    by blast
  from absent_or_unparsable_length [of "post_odd [] []"] a' r'
  have 2: "fst (log_request_info (post_odd [] [])) = Inl HeaderWriteError"
    by blast
  from absent_or_unparsable_length [of "post_echo ''abc'' []"] b c
  have 3: "do_POST (post_echo ''abc'' []) = (Inl ValueError, post_echo ''abc'' [])"
    by blast
  from a r a' r' b c 1 2 3 show ?thesis by blast
qed

subsection \<open>C3: what is logged\<close>

text \<open>
  C3, as written: every accepted GET or POST request produces exactly one log record
  holding path, method, headers and body in this order. The handler calls
  \<open>logging.info\<close> four times, so the request \<open>GET /health\<close> produces four records.
\<close>

theorem one_log_record_counterexample:
  "fst (do_GET get_health) = Inr ()
   \<and> length (log_records (produced get_health (snd (do_GET get_health)))) = 4"
proof -
  have d: "utf8_decode (taken 0 (rfile get_health)) = Inr []"
    by (simp add: taken_def utf8_decode_Nil)
  show ?thesis
    by (simp add: do_GET_returns [OF content_length_get_health fits_zero d str_message_get_health]
          produced_def request_records_def ok_response_def)
qed

text \<open>
  C3, amended: for every GET or POST request that the handler completes (the
  \<open>Content-Length\<close> header is absent or parses as a count the reader takes, the bytes
  read are valid UTF-8, and \<open>str\<close> of the header object returns a string), exactly four
  log records are produced, one per field and in this order: \<open>Path: \<close> with the request
  path, \<open>Method: \<close> with the HTTP method, \<open>Headers: \<close> with the string of the header
  object (the header block, its closing empty line and the payload of the object, if
  any), \<open>Body: \<close> with the body text, which is the empty string if no body is read.
\<close>

theorem four_log_records:
  assumes "content_length self = Inr n" and "fits self n"
    and "utf8_decode (taken n (rfile self)) = Inr t"
    and "str_message (headers self) = Inr h"
  shows "log_records (produced self (snd (do_GET self))) =
           [latin1 ''Path: '' @ latin1 (path self),
            latin1 ''Method: '' @ latin1 (command self),
            latin1 ''Headers: '' @ h,
            latin1 ''Body: '' @ t]
       \<and> log_records (produced self (snd (do_POST self))) =
           [latin1 ''Path: '' @ latin1 (path self),
            latin1 ''Method: '' @ latin1 (command self),
            latin1 ''Headers: '' @ h,
            latin1 ''Body: '' @ t]
       \<and> (n = 0 \<longrightarrow> t = [])"
proof -
  have "n = 0 \<longrightarrow> t = []"
    using assms(3) by (auto simp: taken_def utf8_decode_Nil)
  then show ?thesis
    by (simp add: do_GET_returns [OF assms] do_POST_returns [OF assms] produced_def
          request_records_rendered [OF assms(4)] ok_response_def)
qed

theorem four_log_records_witness:
  "content_length get_health = Inr 0
   \<and> fits get_health 0
   \<and> utf8_decode (taken 0 (rfile get_health)) = Inr []
   \<and> str_message (headers get_health) = Inr (latin1 ''Host: localhost\<newline>\<newline>'')
   \<and> log_records (produced get_health (snd (do_GET get_health))) =
       [latin1 ''Path: /health'', latin1 ''Method: GET'',
        latin1 ''Headers: Host: localhost\<newline>\<newline>'', latin1 ''Body: '']"
proof -
  have d: "utf8_decode (taken 0 (rfile get_health)) = Inr []"
    by (simp add: taken_def utf8_decode_Nil)
  have "log_records (produced get_health (snd (do_GET get_health))) =
           [latin1 ''Path: '' @ latin1 (path get_health),
            latin1 ''Method: '' @ latin1 (command get_health),
            latin1 ''Headers: '' @ latin1 ''Host: localhost\<newline>\<newline>'',
            latin1 ''Body: '' @ []]"
    using four_log_records [OF content_length_get_health fits_zero d str_message_get_health]
    by simp
  then have "log_records (produced get_health (snd (do_GET get_health))) =
       [latin1 ''Path: /health'', latin1 ''Method: GET'',
        latin1 ''Headers: Host: localhost\<newline>\<newline>'', latin1 ''Body: '']"
    by (simp add: get_health_def latin1_def)
  with content_length_get_health fits_zero d str_message_get_health show ?thesis by simp
qed

subsection \<open>C4: the body under \<open>Content-Length\<close>\<close>

text \<open>
  C4, as written: for every POST request with \<open>Content-Length: N\<close>, \<open>N > 0\<close>, and a
  body stream of at least \<open>N\<close> bytes, the logged body text is the first \<open>N\<close> bytes
  decoded as text, and no byte beyond them is consumed. With \<open>N = 1\<close> and the stream
  \<open>0xFF 0x21\<close> the first byte has no decoding: the handler raises and logs no body.
\<close>

theorem body_logged_counterexample:
  "(1::nat) \<le> length (rfile (post_echo ''1'' [0xFF, 0x21]))
   \<and> fst (do_POST (post_echo ''1'' [0xFF, 0x21])) = Inl UnicodeDecodeError
   \<and> log_records (produced (post_echo ''1'' [0xFF, 0x21])
         (snd (do_POST (post_echo ''1'' [0xFF, 0x21])))) = []"
proof -
  have c: "content_length (post_echo ''1'' [0xFF, 0x21]) = Inr 1"
    by (simp add: content_length_post_echo py_int_samples)
  have d: "utf8_decode (taken 1 (rfile (post_echo ''1'' [0xFF, 0x21]))) = Inl UnicodeDecodeError"
    by (simp add: post_echo_def taken_def utf8_decode_samples)
  have "(1::nat) \<le> length (rfile (post_echo ''1'' [0xFF, 0x21]))"
    by (simp add: post_echo_def)
  then show ?thesis
    by (simp add: do_POST_unfold log_request_info_unfold c d fits_post_echo produced_def)
qed

text \<open>
  C4, amended: for every POST request with \<open>Content-Length: N\<close>, \<open>N > 0\<close> a count the
  reader takes, a body stream of at least \<open>N\<close> bytes whose first \<open>N\<close> bytes are valid
  UTF-8, and a header object that \<open>str\<close> turns into a string, the logged body text is
  exactly the first \<open>N\<close> bytes decoded as UTF-8, one read of \<open>N\<close> bytes is made, and
  the stream is left with everything after its first \<open>N\<close> bytes.
\<close>

theorem body_logged:
  assumes "headers_get (headers self) ''Content-Length'' = Some v"
    and "py_int v = Inr n" and "0 < n" and "nat n \<le> length (rfile self)"
    and "fits self n"
    and "utf8_decode (take (nat n) (rfile self)) = Inr t"
    and "str_message (headers self) = Inr h"
  shows "fst (do_POST self) = Inr ()
       \<and> last (log_records (produced self (snd (do_POST self)))) = latin1 ''Body: '' @ t
       \<and> reads (produced self (snd (do_POST self))) = [n]
       \<and> length (take (nat n) (rfile self)) = nat n
       \<and> rfile self = take (nat n) (rfile self) @ rfile (snd (do_POST self))"
proof -
  have c: "content_length self = Inr n"
    using assms(1,2) by (simp add: content_length_header)
  have d: "utf8_decode (taken n (rfile self)) = Inr t"
    using assms(3,6) by (simp add: taken_def)
  from do_POST_returns [OF c assms(5) d assms(7)] assms(3,4) show ?thesis
    by (simp add: produced_def request_records_def ok_response_def left_over_def)
qed

theorem body_logged_witness:
  "headers_get (headers (post_echo ''2'' [0x68, 0x69, 0x21])) ''Content-Length'' = Some ''2''
   \<and> py_int ''2'' = Inr 2
   \<and> fits (post_echo ''2'' [0x68, 0x69, 0x21]) 2
   \<and> utf8_decode (take (nat 2) (rfile (post_echo ''2'' [0x68, 0x69, 0x21]))) = Inr (latin1 ''hi'')
   \<and> str_message (headers (post_echo ''2'' [0x68, 0x69, 0x21])) =
       Inr (latin1 ''Host: localhost\<newline>Content-Length: 2\<newline>\<newline>'')
   \<and> last (log_records (produced (post_echo ''2'' [0x68, 0x69, 0x21])
         (snd (do_POST (post_echo ''2'' [0x68, 0x69, 0x21]))))) = latin1 ''Body: hi''
   \<and> rfile (snd (do_POST (post_echo ''2'' [0x68, 0x69, 0x21]))) = [0x21]"
proof -
  have a: "headers_get (headers (post_echo ''2'' [0x68, 0x69, 0x21])) ''Content-Length'' = Some ''2''"
    by (rule headers_get_post_echo)
  have b: "py_int ''2'' = Inr 2"
    by (simp add: py_int_samples)
  have l: "nat 2 \<le> length (rfile (post_echo ''2'' [0x68, 0x69, 0x21]))"
    by (simp add: post_echo_def)
  note f = fits_post_echo(2) [of "''2''" "[0x68, 0x69, 0x21]"]
  have d: "utf8_decode (take (nat 2) (rfile (post_echo ''2'' [0x68, 0x69, 0x21]))) = Inr (latin1 ''hi'')"
    by (simp add: post_echo_def utf8_decode_samples latin1_def)
  note s = str_message_post_echo_2 [of "[0x68, 0x69, 0x21]"]
  have r: "rfile (post_echo ''2'' [0x68, 0x69, 0x21]) = [0x68, 0x69, 0x21]"
    by (simp add: post_echo_def)
  from body_logged [OF a b _ l f d s]
  have "last (log_records (produced (post_echo ''2'' [0x68, 0x69, 0x21])
         (snd (do_POST (post_echo ''2'' [0x68, 0x69, 0x21]))))) = latin1 ''Body: hi''
      \<and> rfile (snd (do_POST (post_echo ''2'' [0x68, 0x69, 0x21]))) = [0x21]"
    by (simp add: r latin1_def)
  with a b f d s show ?thesis by simp
qed

subsection \<open>C5: no \<open>Content-Length\<close>, or 0\<close>

text \<open>
  C5, as written: every POST request without a \<open>Content-Length\<close> header, or with the
  value 0, logs an empty body string and performs no read. The first half fails for a
  POST without \<open>Content-Length\<close> that carries a header whose value the library refuses
  to write out (\<open>a\<close>, the control character FS, \<open>b\<close>): no read is made, but line 10
  raises \<open>HeaderWriteError\<close> and the \<open>Body\<close> record is never logged.
\<close>

theorem no_length_no_read_counterexample:
  "headers_get (headers (post_odd [] [0x68, 0x69])) ''Content-Length'' = None
   \<and> fst (do_POST (post_odd [] [0x68, 0x69])) = Inl HeaderWriteError
   \<and> reads (produced (post_odd [] [0x68, 0x69]) (snd (do_POST (post_odd [] [0x68, 0x69])))) = []
   \<and> log_records (produced (post_odd [] [0x68, 0x69]) (snd (do_POST (post_odd [] [0x68, 0x69]))))
       = [latin1 ''Path: /echo'', latin1 ''Method: POST'']"
proof -
  note a = headers_get_post_odd [of "[0x68, 0x69]"]
  then have c: "content_length (post_odd [] [0x68, 0x69]) = Inr 0"
    by (simp add: content_length_def)
  have d: "utf8_decode (taken 0 (rfile (post_odd [] [0x68, 0x69]))) = Inr []"
    by (simp add: taken_def utf8_decode_Nil)
  note k = log_request_info_unrendered [OF c fits_zero d str_message_post_odd]
  have "fst (do_POST (post_odd [] [0x68, 0x69])) = Inl HeaderWriteError
   \<and> reads (produced (post_odd [] [0x68, 0x69]) (snd (do_POST (post_odd [] [0x68, 0x69])))) = []
   \<and> log_records (produced (post_odd [] [0x68, 0x69]) (snd (do_POST (post_odd [] [0x68, 0x69]))))
       = [latin1 ''Path: '' @ latin1 (path (post_odd [] [0x68, 0x69])),
          latin1 ''Method: '' @ latin1 (command (post_odd [] [0x68, 0x69]))]"
    by (simp add: do_POST_unfold k produced_def request_records_def)
  then have "fst (do_POST (post_odd [] [0x68, 0x69])) = Inl HeaderWriteError
   \<and> reads (produced (post_odd [] [0x68, 0x69]) (snd (do_POST (post_odd [] [0x68, 0x69])))) = []
   \<and> log_records (produced (post_odd [] [0x68, 0x69]) (snd (do_POST (post_odd [] [0x68, 0x69]))))
       = [latin1 ''Path: /echo'', latin1 ''Method: POST'']"
    by (simp add: post_odd_def latin1_def)
  with a show ?thesis by simp
qed

text \<open>
  C5, amended: for every POST request without a \<open>Content-Length\<close> header, or with a
  \<open>Content-Length\<close> whose value is 0, the handler performs no read on the body stream
  and leaves it as it was (so it cannot block waiting for a body); and if \<open>str\<close> of the
  header object returns a string, the handler returns and logs an empty body string.
\<close>

theorem no_length_no_read:
  assumes "headers_get (headers self) ''Content-Length'' = None
         \<or> (\<exists>v. headers_get (headers self) ''Content-Length'' = Some v \<and> py_int v = Inr 0)"
  shows "reads (produced self (snd (do_POST self))) = []
       \<and> rfile (snd (do_POST self)) = rfile self
       \<and> reads (produced self (snd (log_request_info self))) = []
       \<and> rfile (snd (log_request_info self)) = rfile self
       \<and> (\<forall>h. str_message (headers self) = Inr h \<longrightarrow>
             fst (do_POST self) = Inr ()
             \<and> last (log_records (produced self (snd (do_POST self)))) = latin1 ''Body: ''
             \<and> fst (log_request_info self) = Inr ()
             \<and> produced self (snd (log_request_info self)) =
                 map Logging_info (request_records self []))"
proof -
  have c: "content_length self = Inr 0"
    using assms by (auto simp: content_length_def)
  have d: "utf8_decode (taken 0 (rfile self)) = Inr []"
    by (simp add: taken_def utf8_decode_Nil)
  note l = log_request_info_fields [OF c fits_zero d]
  have 1: "reads (produced self (snd (log_request_info self))) = []
       \<and> rfile (snd (log_request_info self)) = rfile self"
    by (simp add: l produced_def fields_logged_quiet)
  have 2: "reads (produced self (snd (do_POST self))) = []
       \<and> rfile (snd (do_POST self)) = rfile self"
    by (cases "fields_result self")
       (simp_all add: do_POST_unfold l produced_def fields_logged_quiet ok_response_def
          reads_append)
  have 3: "\<forall>h. str_message (headers self) = Inr h \<longrightarrow>
             fst (do_POST self) = Inr ()
             \<and> last (log_records (produced self (snd (do_POST self)))) = latin1 ''Body: ''
             \<and> fst (log_request_info self) = Inr ()
             \<and> produced self (snd (log_request_info self)) =
                 map Logging_info (request_records self [])"
  proof (intro allI impI)
    fix h
    assume r: "str_message (headers self) = Inr h"
    show "fst (do_POST self) = Inr ()
             \<and> last (log_records (produced self (snd (do_POST self)))) = latin1 ''Body: ''
             \<and> fst (log_request_info self) = Inr ()
             \<and> produced self (snd (log_request_info self)) =
                 map Logging_info (request_records self [])"
      using do_POST_returns [OF c fits_zero d r] log_request_info_returns [OF c fits_zero d r]
      by (simp add: produced_def request_records_def ok_response_def)
  qed
  from 1 2 3 show ?thesis by blast
qed

theorem no_length_no_read_witness:
  "headers_get (headers (post_echo ''0'' [0x68, 0x69])) ''Content-Length'' = Some ''0''
   \<and> py_int ''0'' = Inr 0
   \<and> str_message (headers (post_echo ''0'' [0x68, 0x69])) =
       Inr (latin1 ''Host: localhost\<newline>Content-Length: 0\<newline>\<newline>'')
   \<and> fst (do_POST (post_echo ''0'' [0x68, 0x69])) = Inr ()
   \<and> reads (produced (post_echo ''0'' [0x68, 0x69]) (snd (do_POST (post_echo ''0'' [0x68, 0x69])))) = []
   \<and> rfile (snd (do_POST (post_echo ''0'' [0x68, 0x69]))) = [0x68, 0x69]
   \<and> last (log_records (produced (post_echo ''0'' [0x68, 0x69])
        (snd (do_POST (post_echo ''0'' [0x68, 0x69]))))) = latin1 ''Body: ''"
proof -
  have a: "headers_get (headers (post_echo ''0'' [0x68, 0x69])) ''Content-Length'' = Some ''0''"
    by (rule headers_get_post_echo)
  have b: "py_int ''0'' = Inr 0"
    by (simp add: py_int_samples)
  have h: "headers_get (headers (post_echo ''0'' [0x68, 0x69])) ''Content-Length'' = None
         \<or> (\<exists>v. headers_get (headers (post_echo ''0'' [0x68, 0x69])) ''Content-Length'' = Some v
               \<and> py_int v = Inr 0)"
    using a b by blast
  note s = str_message_post_echo_0 [of "[0x68, 0x69]"]
  have r: "rfile (post_echo ''0'' [0x68, 0x69]) = [0x68, 0x69]"
    by (simp add: post_echo_def)
  from no_length_no_read [OF h] a b r s show ?thesis by simp
qed

subsection \<open>C6: duplicate headers\<close>

text \<open>
  C6, as written: for every request with the same header name twice, both occurrences
  appear in the logged header block in the order of the wire. A request with two
  \<open>X-Trace-Id\<close> headers and \<open>Content-Length: abc\<close> raises on line 6 and logs no header
  block at all.
\<close>

theorem duplicate_headers_counterexample:
  "raw_items (headers (post_traced ''abc'' [])) =
     [] @ (''X-Trace-Id'', ''a'') # [(''Content-Length'', ''abc'')] @ (''X-Trace-Id'', ''b'') # []
   \<and> fst (log_request_info (post_traced ''abc'' [])) = Inl ValueError
   \<and> log_records (produced (post_traced ''abc'' [])
        (snd (log_request_info (post_traced ''abc'' [])))) = []"
proof -
  have a: "raw_items (headers (post_traced ''abc'' [])) =
     [] @ (''X-Trace-Id'', ''a'') # [(''Content-Length'', ''abc'')] @ (''X-Trace-Id'', ''b'') # []"
    by (simp add: post_traced_def)
  have c: "content_length (post_traced ''abc'' []) = Inl ValueError"
    by (simp add: content_length_header [OF headers_get_post_traced] py_int_samples)
  from a show ?thesis
    by (simp add: log_request_info_unfold c produced_def)
qed

text \<open>
  C6, amended: for every request with the same header name twice that the handler logs
  completely (the \<open>Content-Length\<close> header is absent or parses as a count the reader
  takes, the bytes read are valid UTF-8, and \<open>str\<close> of the header object returns a
  string), both occurrences appear in the logged header block in the order of the wire:
  four records are logged, and the third is \<open>Headers: \<close> followed by the rendering of the
  headers before the first occurrence, of the first occurrence, of the headers between
  the two, of the second occurrence, of the headers after it, the closing empty line and
  the payload of the header object.
\<close>

theorem duplicate_headers_in_log:
  assumes "raw_items (headers self) = pre @ (k, v1) # mid @ (k, v2) # post"
    and "content_length self = Inr n" and "fits self n"
    and "utf8_decode (taken n (rfile self)) = Inr t"
    and "str_message (headers self) = Inr h"
  shows "\<exists>a f1 b f2 c p.
           render_items (policy_fold (headers self)) pre = Inr a
         \<and> policy_fold (headers self) k v1 = Inr f1
         \<and> render_items (policy_fold (headers self)) mid = Inr b
         \<and> policy_fold (headers self) k v2 = Inr f2
         \<and> render_items (policy_fold (headers self)) post = Inr c
         \<and> payload_text (headers self) = Inr p
         \<and> fst (log_request_info self) = Inr ()
         \<and> length (log_records (produced self (snd (log_request_info self)))) = 4
         \<and> log_records (produced self (snd (log_request_info self))) ! 2 =
             latin1 ''Headers: '' @ a @ f1 @ b @ f2 @ c @ latin1 ''\<newline>'' @ p"
proof -
  from assms(5) obtain p hs where p: "payload_text (headers self) = Inr p"
    and hs: "render_items (policy_fold (headers self)) (raw_items (headers self)) = Inr hs"
    and h: "h = hs @ latin1 ''\<newline>'' @ p"
    by (auto simp: str_message_def split: sum.splits)
  from hs assms(1) obtain a f1 b f2 c where
    "render_items (policy_fold (headers self)) pre = Inr a"
    "policy_fold (headers self) k v1 = Inr f1"
    "render_items (policy_fold (headers self)) mid = Inr b"
    "policy_fold (headers self) k v2 = Inr f2"
    "render_items (policy_fold (headers self)) post = Inr c"
    "hs = a @ f1 @ b @ f2 @ c"
    by (auto simp: render_items_append split: sum.splits)
  moreover have "fst (log_request_info self) = Inr ()
      \<and> length (log_records (produced self (snd (log_request_info self)))) = 4
      \<and> log_records (produced self (snd (log_request_info self))) ! 2 = latin1 ''Headers: '' @ h"
    by (simp add: log_request_info_returns [OF assms(2-5)] produced_def
          request_records_rendered [OF assms(5)])
  ultimately show ?thesis
    using p h by simp
qed

theorem duplicate_headers_in_log_witness:
  "raw_items (headers get_traced) =
     [] @ (''X-Trace-Id'', ''a'') # [(''Host'', ''h'')] @ (''X-Trace-Id'', ''b'') # []
   \<and> content_length get_traced = Inr 0
   \<and> fits get_traced 0
   \<and> utf8_decode (taken 0 (rfile get_traced)) = Inr []
   \<and> str_message (headers get_traced) =
       Inr (latin1 ''X-Trace-Id: a\<newline>Host: h\<newline>X-Trace-Id: b\<newline>\<newline>'')
   \<and> log_records (produced get_traced (snd (log_request_info get_traced))) ! 2 =
       latin1 ''Headers: X-Trace-Id: a\<newline>Host: h\<newline>X-Trace-Id: b\<newline>\<newline>''"
proof -
  have a: "raw_items (headers get_traced) =
      [] @ (''X-Trace-Id'', ''a'') # [(''Host'', ''h'')] @ (''X-Trace-Id'', ''b'') # []"
    by (simp add: get_traced_def)
  have d: "utf8_decode (taken 0 (rfile get_traced)) = Inr []"
    by (simp add: taken_def utf8_decode_Nil)
  have f: "policy_fold (headers get_traced) = fold_plain"
    "payload_text (headers get_traced) = Inr []"
    by (simp_all add: get_traced_def)
  from duplicate_headers_in_log
    [OF a content_length_get_traced fits_zero d str_message_get_traced]
  have "log_records (produced get_traced (snd (log_request_info get_traced))) ! 2 =
       latin1 ''Headers: X-Trace-Id: a\<newline>Host: h\<newline>X-Trace-Id: b\<newline>\<newline>''"
    by (auto simp: f fold_plain_def is_printable_def latin1_def)
  with a content_length_get_traced fits_zero d str_message_get_traced show ?thesis by simp
qed

subsection \<open>C7: the log comes before the response\<close>



subsection \<open>C8: \<open>do_GET\<close> and \<open>do_POST\<close>\<close>

text \<open>
  C8: on every handler object \<open>do_GET\<close> and \<open>do_POST\<close> do the same. Handling a
  request as POST with any method name \<open>c\<close> in place of its own gives the same result,
  the same reads, the same stream left and the same response as handling it as GET; the
  log records are the same except the second, which is \<open>Method: \<close> followed by \<open>c\<close>.
\<close>

theorem do_GET_do_POST_equivalent:
  "do_GET self = do_POST self
   \<and> fst (do_POST (self\<lparr>command := c\<rparr>)) = fst (do_GET self)
   \<and> rfile (snd (do_POST (self\<lparr>command := c\<rparr>))) = rfile (snd (do_GET self))
   \<and> reads (produced (self\<lparr>command := c\<rparr>) (snd (do_POST (self\<lparr>command := c\<rparr>))))
       = reads (produced self (snd (do_GET self)))
   \<and> response_status (produced (self\<lparr>command := c\<rparr>) (snd (do_POST (self\<lparr>command := c\<rparr>))))
       = response_status (produced self (snd (do_GET self)))
   \<and> response_body (produced (self\<lparr>command := c\<rparr>) (snd (do_POST (self\<lparr>command := c\<rparr>))))
       = response_body (produced self (snd (do_GET self)))
   \<and> log_records (produced (self\<lparr>command := c\<rparr>) (snd (do_POST (self\<lparr>command := c\<rparr>))))
       = (log_records (produced self (snd (do_GET self))))[1 := latin1 ''Method: '' @ latin1 c]"
proof -
  have e: "do_GET self = do_POST self"
    by (simp add: do_GET_def do_POST_def)
  have r: "fst (do_POST (self\<lparr>command := c\<rparr>)) = fst (do_GET self)
   \<and> rfile (snd (do_POST (self\<lparr>command := c\<rparr>))) = rfile (snd (do_GET self))
   \<and> reads (produced (self\<lparr>command := c\<rparr>) (snd (do_POST (self\<lparr>command := c\<rparr>))))
       = reads (produced self (snd (do_GET self)))
   \<and> response_status (produced (self\<lparr>command := c\<rparr>) (snd (do_POST (self\<lparr>command := c\<rparr>))))
       = response_status (produced self (snd (do_GET self)))
   \<and> response_body (produced (self\<lparr>command := c\<rparr>) (snd (do_POST (self\<lparr>command := c\<rparr>))))
       = response_body (produced self (snd (do_GET self)))
   \<and> log_records (produced (self\<lparr>command := c\<rparr>) (snd (do_POST (self\<lparr>command := c\<rparr>))))
       = (log_records (produced self (snd (do_GET self))))[1 := latin1 ''Method: '' @ latin1 c]"
  proof (cases "content_length self")
    case (Inl x)
    then show ?thesis
      by (simp add: do_GET_unfold do_POST_unfold log_request_info_unfold
            content_length_command produced_def)
  next
    case (Inr n)
    have f: "fields_result self = Inr () \<or> (\<exists>x. fields_result self = Inl x)"
      by (cases "fields_result self") simp_all
    show ?thesis
    proof (cases "utf8_decode (taken n (rfile self))")
      case (Inl x)
      with Inr f show ?thesis
        by (auto simp: do_GET_unfold do_POST_unfold log_request_info_unfold
              content_length_command fits_command read_error_command
              fields_result_command produced_def ok_response_def
              reads_append log_records_append response_status_append response_body_append
              fields_logged_quiet log_records_fields_logged_command list_update_append)
    next
      case d: (Inr t)
      with Inr f show ?thesis
        by (auto simp: do_GET_unfold do_POST_unfold log_request_info_unfold
              content_length_command fits_command read_error_command
              fields_result_command produced_def ok_response_def
              reads_append log_records_append response_status_append response_body_append
              fields_logged_quiet log_records_fields_logged_command list_update_append)
    qed
  qed
  from e r show ?thesis by blast
qed

theorem do_GET_do_POST_equivalent_witness:
  "do_GET get_health = do_POST get_health
   \<and> log_records (produced get_health (snd (do_GET get_health))) =
       [latin1 ''Path: /health'', latin1 ''Method: GET'',
        latin1 ''Headers: Host: localhost\<newline>\<newline>'', latin1 ''Body: '']
   \<and> log_records (produced (get_health\<lparr>command := ''POST''\<rparr>)
         (snd (do_POST (get_health\<lparr>command := ''POST''\<rparr>)))) =
       [latin1 ''Path: /health'', latin1 ''Method: POST'',
        latin1 ''Headers: Host: localhost\<newline>\<newline>'', latin1 ''Body: '']"
proof -
  have d: "utf8_decode (taken 0 (rfile get_health)) = Inr []"
    by (simp add: taken_def utf8_decode_Nil)
  have "log_records (produced get_health (snd (do_GET get_health))) =
       request_records get_health []"
    by (simp add: do_GET_returns [OF content_length_get_health fits_zero d str_message_get_health]
          produced_def request_records_def ok_response_def)
  then have "log_records (produced get_health (snd (do_GET get_health))) =
       [latin1 ''Path: '' @ latin1 (path get_health),
        latin1 ''Method: '' @ latin1 (command get_health),
        latin1 ''Headers: '' @ latin1 ''Host: localhost\<newline>\<newline>'',
        latin1 ''Body: '' @ []]"
    by (simp add: request_records_rendered [OF str_message_get_health])
  then have g: "log_records (produced get_health (snd (do_GET get_health))) =
       [latin1 ''Path: /health'', latin1 ''Method: GET'',
        latin1 ''Headers: Host: localhost\<newline>\<newline>'', latin1 ''Body: '']"
    by (simp add: get_health_def latin1_def)
  from do_GET_do_POST_equivalent [of get_health "''POST''"] g show ?thesis
    by (simp add: latin1_def)
qed

subsection \<open>C9: a body that is not UTF-8\<close>

text \<open>
  C9, as written: for every request with \<open>Content-Length: N\<close>, \<open>N > 0\<close>, whose first
  \<open>N\<close> body bytes are not valid UTF-8, the handler raises a decode error. With
  \<open>N = 2^63\<close> and the body \<open>0xFF\<close> the count does not fit the index type of the reader:
  \<open>rfile.read\<close> raises \<open>OverflowError\<close> and nothing is decoded.
\<close>

theorem decode_error_counterexample:
  "headers_get (headers (post_echo ''9223372036854775808'' [0xFF])) ''Content-Length''
     = Some ''9223372036854775808''
   \<and> py_int ''9223372036854775808'' = Inr 9223372036854775808
   \<and> utf8_decode (take (nat 9223372036854775808)
        (rfile (post_echo ''9223372036854775808'' [0xFF]))) = Inl UnicodeDecodeError
   \<and> fst (do_POST (post_echo ''9223372036854775808'' [0xFF])) = Inl OverflowError
   \<and> fst (do_GET (post_echo ''9223372036854775808'' [0xFF])) = Inl OverflowError"
proof -
  have a: "headers_get (headers (post_echo ''9223372036854775808'' [0xFF])) ''Content-Length''
     = Some ''9223372036854775808''"
    by (rule headers_get_post_echo)
  have b: "py_int ''9223372036854775808'' = Inr 9223372036854775808"
    by (simp add: py_int_samples)
  have d: "utf8_decode (take (nat 9223372036854775808)
        (rfile (post_echo ''9223372036854775808'' [0xFF]))) = Inl UnicodeDecodeError"
    by (simp add: post_echo_def utf8_decode_samples)
  have c: "content_length (post_echo ''9223372036854775808'' [0xFF]) = Inr 9223372036854775808"
    by (simp add: content_length_post_echo b)
  have n: "\<not> fits (post_echo ''9223372036854775808'' [0xFF]) 9223372036854775808"
    by (simp add: fits_def)
  have e: "read_error 9223372036854775808 (post_echo ''9223372036854775808'' [0xFF]) = OverflowError"
    by (simp add: read_error_def)
  have "fst (do_POST (post_echo ''9223372036854775808'' [0xFF])) = Inl OverflowError
   \<and> fst (do_GET (post_echo ''9223372036854775808'' [0xFF])) = Inl OverflowError"
    by (simp add: do_POST_unfold do_GET_unfold log_request_info_unfold c n e)
  with a b d show ?thesis by simp
qed

text \<open>
  C9, amended: for every request with \<open>Content-Length: N\<close>, \<open>N > 0\<close> a count the reader
  takes (at most \<open>2^63 - 34\<close> and within what the interpreter can allocate), whose first
  \<open>N\<close> body bytes are not valid UTF-8, the handler raises \<open>UnicodeDecodeError\<close> after
  the read and before any of the four log calls: no log record is produced and nothing
  of the response is written, under \<open>do_GET\<close> and under \<open>do_POST\<close>.
\<close>

theorem decode_error_no_log:
  assumes "headers_get (headers self) ''Content-Length'' = Some v"
    and "py_int v = Inr n" and "0 < n" and "fits self n"
    and "utf8_decode (take (nat n) (rfile self)) = Inl e"
  shows "e = UnicodeDecodeError
       \<and> fst (log_request_info self) = Inl UnicodeDecodeError
       \<and> produced self (snd (log_request_info self)) = [Rfile_read n]
       \<and> fst (do_GET self) = Inl UnicodeDecodeError
       \<and> produced self (snd (do_GET self)) = [Rfile_read n]
       \<and> log_records (produced self (snd (do_GET self))) = []
       \<and> response_status (produced self (snd (do_GET self))) = []
       \<and> response_body (produced self (snd (do_GET self))) = []
       \<and> fst (do_POST self) = Inl UnicodeDecodeError
       \<and> produced self (snd (do_POST self)) = [Rfile_read n]
       \<and> log_records (produced self (snd (do_POST self))) = []
       \<and> response_status (produced self (snd (do_POST self))) = []
       \<and> response_body (produced self (snd (do_POST self))) = []"
proof -
  have c: "content_length self = Inr n"
    using assms(1,2) by (simp add: content_length_header)
  have u: "e = UnicodeDecodeError"
    using assms(5) by (rule exn_of_utf8_decode)
  have d: "utf8_decode (taken n (rfile self)) = Inl UnicodeDecodeError"
    using assms(3,5) u by (simp add: taken_def)
  from assms(3,4) c d u show ?thesis
    by (simp add: do_GET_unfold do_POST_unfold log_request_info_unfold produced_def)
qed

theorem decode_error_no_log_witness:
  "headers_get (headers (post_echo ''2'' [0x68, 0xFF])) ''Content-Length'' = Some ''2''
   \<and> py_int ''2'' = Inr 2
   \<and> fits (post_echo ''2'' [0x68, 0xFF]) 2
   \<and> utf8_decode (take (nat 2) (rfile (post_echo ''2'' [0x68, 0xFF]))) = Inl UnicodeDecodeError
   \<and> fst (do_POST (post_echo ''2'' [0x68, 0xFF])) = Inl UnicodeDecodeError
   \<and> produced (post_echo ''2'' [0x68, 0xFF]) (snd (do_POST (post_echo ''2'' [0x68, 0xFF])))
       = [Rfile_read 2]"
proof -
  have a: "headers_get (headers (post_echo ''2'' [0x68, 0xFF])) ''Content-Length'' = Some ''2''"
    by (rule headers_get_post_echo)
  have b: "py_int ''2'' = Inr 2"
    by (simp add: py_int_samples)
  note f = fits_post_echo(2) [of "''2''" "[0x68, 0xFF]"]
  have d: "utf8_decode (take (nat 2) (rfile (post_echo ''2'' [0x68, 0xFF]))) = Inl UnicodeDecodeError"
    by (simp add: post_echo_def utf8_decode_def between_def)
  from decode_error_no_log [OF a b _ f d] a b f d show ?thesis
    by simp
qed

subsection \<open>C10: a negative \<open>Content-Length\<close>\<close>

text \<open>
  C10: for every request whose \<open>Content-Length\<close> parses as a negative integer, the
  length is not taken as 0: the first thing the handler does is a read of the body
  stream with that negative count, so its events are not those of logging an empty body
  without reading.
\<close>

theorem negative_length_read:
  assumes "headers_get (headers self) ''Content-Length'' = Some v"
    and "py_int v = Inr n" and "n < 0"
  shows "content_length self = Inr n
       \<and> content_length self \<noteq> Inr 0
       \<and> take 1 (produced self (snd (log_request_info self))) = [Rfile_read n]
       \<and> reads (produced self (snd (log_request_info self))) = [n]
       \<and> produced self (snd (log_request_info self)) \<noteq> map Logging_info (request_records self [])"
proof -
  have c: "content_length self = Inr n"
    using assms(1,2) by (simp add: content_length_header)
  show ?thesis
  proof (cases "fits self n")
    case False
    with c assms(3) show ?thesis
      by (simp add: log_request_info_unfold produced_def request_records_def)
  next
    case True
    with c assms(3) show ?thesis
      by (cases "utf8_decode (taken n (rfile self))")
         (simp_all add: log_request_info_unfold produced_def request_records_def
            reads_append fields_logged_quiet)
  qed
qed

theorem negative_length_read_witness:
  "headers_get (headers (post_echo ''-1'' [0x68, 0x69])) ''Content-Length'' = Some ''-1''
   \<and> py_int ''-1'' = Inr (- 1)
   \<and> take 1 (produced (post_echo ''-1'' [0x68, 0x69])
        (snd (log_request_info (post_echo ''-1'' [0x68, 0x69])))) = [Rfile_read (- 1)]
   \<and> headers_get (headers (post_echo ''-5'' [0x68, 0x69])) ''Content-Length'' = Some ''-5''
   \<and> py_int ''-5'' = Inr (- 5)
   \<and> reads (produced (post_echo ''-5'' [0x68, 0x69])
        (snd (log_request_info (post_echo ''-5'' [0x68, 0x69])))) = [- 5]"
proof -
  have a: "headers_get (headers (post_echo ''-1'' [0x68, 0x69])) ''Content-Length'' = Some ''-1''"
    by (rule headers_get_post_echo)
  have b: "py_int ''-1'' = Inr (- 1)"
    by (simp add: py_int_samples)
  have a': "headers_get (headers (post_echo ''-5'' [0x68, 0x69])) ''Content-Length'' = Some ''-5''"
    by (rule headers_get_post_echo)
  have b': "py_int ''-5'' = Inr (- 5)"
    by (simp add: py_int_samples)
  from negative_length_read [OF a b] negative_length_read [OF a' b'] a b a' b'
  show ?thesis by simp
qed

end
